theory Spec2Isabelle
  imports Complex_Main "HOL-Library.Sublist"
begin

section \<open>JavaScript strings\<close>

text \<open>
  A JavaScript string is a sequence of UTF-16 code units, here natural numbers.  A
  literal of the source is written \<open>lit ''...''\<close>.  Only the operations that the
  maps modules call are embedded: \<open>String.prototype.trim\<close>, \<open>includes\<close>,
  \<open>startsWith\<close>, \<open>split\<close> on a one-character separator and a global \<open>replace\<close>
  of a literal.
\<close>

type_synonym code_unit = nat

type_synonym js_string = "code_unit list"

definition lit :: "string \<Rightarrow> js_string" where
  "lit s = map of_char s"

text \<open>
  What \<open>trim\<close> strips: the white space of ECMAScript (tab, vertical tab, form feed,
  the byte order mark U+FEFF and the space separators U+0020, U+00A0, U+1680,
  U+2000 to U+200A, U+202F, U+205F, U+3000) and its line terminators (line feed,
  carriage return, U+2028, U+2029).  Each is one code unit.
\<close>

definition isWhitespace :: "code_unit \<Rightarrow> bool" where
  "isWhitespace c =
     (c \<in> {0x09, 0x0A, 0x0B, 0x0C, 0x0D, 0x20, 0xA0, 0x1680, 0x2028, 0x2029, 0x202F, 0x205F,
            0x3000, 0xFEFF} \<or>
      (0x2000 \<le> c \<and> c \<le> 0x200A))"

definition trim :: "js_string \<Rightarrow> js_string" where
  "trim s = rev (dropWhile isWhitespace (rev (dropWhile isWhitespace s)))"

fun startsWith :: "js_string \<Rightarrow> js_string \<Rightarrow> bool" where
  "startsWith s [] = True"
| "startsWith [] (p # ps) = False"
| "startsWith (c # cs) (p # ps) = (c = p \<and> startsWith cs ps)"

fun includes_str :: "js_string \<Rightarrow> js_string \<Rightarrow> bool" where
  "includes_str [] sub = (sub = [])"
| "includes_str (c # cs) sub = (startsWith (c # cs) sub \<or> includes_str cs sub)"

text \<open>\<open>s.split(sep)\<close> for a separator of one code unit; the result is never empty.\<close>

fun split :: "js_string \<Rightarrow> code_unit \<Rightarrow> js_string list" where
  "split [] sep = [[]]"
| "split (c # cs) sep =
     (if c = sep then [] # split cs sep
      else (case split cs sep of
              [] \<Rightarrow> [[c]]
            | piece # pieces \<Rightarrow> (c # piece) # pieces))"

text \<open>\<open>xs[i]\<close> on an array: \<open>undefined\<close> out of range.\<close>

fun at_index :: "'a list \<Rightarrow> nat \<Rightarrow> 'a option" where
  "at_index [] i = None"
| "at_index (x # xs) 0 = Some x"
| "at_index (x # xs) (Suc i) = at_index xs i"

text \<open>\<open>s.replace(/pat/g, rep)\<close> for a literal, non-empty pattern.\<close>

fun replaceAll :: "js_string \<Rightarrow> js_string \<Rightarrow> js_string \<Rightarrow> js_string" where
  "replaceAll [] pat rep = []"
| "replaceAll (c # cs) pat rep =
     (if pat \<noteq> [] \<and> startsWith (c # cs) pat
      then rep @ replaceAll (drop (length pat) (c # cs)) pat rep
      else c # replaceAll cs pat rep)"

section \<open>Thrown values\<close>

text \<open>
  A thrown value is inspected by the code through four properties only:
  \<open>axios.isAxiosError(error)\<close>, \<open>error?.response?.status\<close>, \<open>error?.code\<close> and
  \<open>error?.message\<close>.  A property that is absent is \<open>None\<close>.
\<close>

record js_error =
  isAxiosError :: bool
  response_status :: "int option"
  code :: "js_string option"
  message :: "js_string option"

text \<open>\<open>new Error(msg)\<close>\<close>

definition Error :: "js_string \<Rightarrow> js_error" where
  "Error msg = \<lparr>isAxiosError = False, response_status = None, code = None, message = Some msg\<rparr>"

section \<open>rate-limiter.ts: ExponentialBackoffRateLimiter\<close>

text \<open>
  A number is the real value of a double; \<open>NaN\<close> and the infinities are left out.
  Comparison and \<open>Math.min\<close> are exact on doubles.  The product and \<open>Math.pow\<close>
  round, so they are parameters (\<open>js_math\<close>), as is the timer behind
  \<open>this.delay(ms)\<close>, which acts on the outside world.  \<open>maxRetries\<close> and the retry
  count are integers.
\<close>

record js_math =
  multiply :: "real \<Rightarrow> real \<Rightarrow> real"
  Math_pow :: "real \<Rightarrow> nat \<Rightarrow> real"

record RateLimiterConfig =
  cfg_requestsPerSecond :: "real option"
  cfg_maxRetries :: "int option"
  cfg_baseDelay :: "real option"
  cfg_maxDelay :: "real option"
  cfg_backoffMultiplier :: "real option"

record limiter =
  requestsPerSecond :: real
  maxRetries :: int
  baseDelay :: real
  maxDelay :: real
  backoffMultiplier :: real

text \<open>\<open>value || dflt\<close> on an optional number: \<open>undefined\<close> and \<open>0\<close> are both falsy.\<close>

definition or_default :: "'a::zero option \<Rightarrow> 'a \<Rightarrow> 'a" where
  "or_default v dflt = (case v of None \<Rightarrow> dflt | Some x \<Rightarrow> if x = 0 then dflt else x)"

definition new_limiter :: "RateLimiterConfig \<Rightarrow> limiter" where
  "new_limiter config =
     \<lparr>requestsPerSecond = or_default (cfg_requestsPerSecond config) 10,
      maxRetries = or_default (cfg_maxRetries config) 3,
      baseDelay = or_default (cfg_baseDelay config) 1000,
      maxDelay = or_default (cfg_maxDelay config) 30000,
      backoffMultiplier = or_default (cfg_backoffMultiplier config) 2\<rparr>"

definition isRetryableError :: "js_error \<Rightarrow> bool" where
  "isRetryableError error =
     (if response_status error = Some 429 then True
      else if response_status error = Some 503 then True
      else if response_status error = Some 504 then True
      else if code error = Some (lit ''ECONNRESET'') then True
      else if code error = Some (lit ''ETIMEDOUT'') then True
      else if (case message error of None \<Rightarrow> False | Some m \<Rightarrow> includes_str m (lit ''timeout''))
      then True
      else if (case message error of None \<Rightarrow> False | Some m \<Rightarrow> includes_str m (lit ''network''))
      then True
      else False)"

text \<open>
  The log that \<open>retryWithBackoff\<close> returns beside its result: an invocation of the
  operation (\<open>Attempt\<close>) and a sleep (\<open>Backoff ms\<close>, the call \<open>this.delay(delay)\<close>).
\<close>

datatype retry_event = Attempt | Backoff real

text \<open>
  An operation is a deferred unit of work on the outside world \<open>'w\<close>: it returns the
  value it resolves to (\<open>Inr\<close>) or the value it rejects with (\<open>Inl\<close>), and the world
  after it ran.  The sleep \<open>delay\<close> acts on the same world.
\<close>

function retryWithBackoff ::
  "js_math \<Rightarrow> (real \<Rightarrow> 'w \<Rightarrow> 'w) \<Rightarrow> limiter \<Rightarrow> ('w \<Rightarrow> (js_error + 'a) \<times> 'w) \<Rightarrow> nat \<Rightarrow> 'w \<Rightarrow>
     (js_error + 'a) \<times> 'w \<times> retry_event list"
where
  "retryWithBackoff math delay rl operation retryCount w =
     (case operation w of
        (Inr v, w') \<Rightarrow> (Inr v, w', [Attempt])
      | (Inl error, w') \<Rightarrow>
          if int retryCount \<ge> maxRetries rl then (Inl error, w', [Attempt])
          else if isRetryableError error then
            (let ms = min (multiply math (baseDelay rl)
                             (Math_pow math (backoffMultiplier rl) retryCount))
                          (maxDelay rl)
             in case retryWithBackoff math delay rl operation (retryCount + 1) (delay ms w') of
                  (r, w'', evs) \<Rightarrow> (r, w'', Attempt # Backoff ms # evs))
          else (Inl error, w', [Attempt]))"
  by pat_completeness auto
termination
  by (relation "measure (\<lambda>(math, delay, rl, operation, retryCount, w).
                   nat (maxRetries rl - int retryCount))") auto

declare retryWithBackoff.simps [simp del]



text \<open>
  An observer of a retry, outside \<open>retryWithBackoff\<close>: the operation itself notes
  each of its invocations in the world, and the timer each sleep, in the order in which
  they happen.
\<close>

definition observed ::
  "('w \<Rightarrow> (js_error + 'a) \<times> 'w) \<Rightarrow> retry_event list \<times> 'w \<Rightarrow> (js_error + 'a) \<times> retry_event list \<times> 'w"
where
  "observed operation = (\<lambda>(seen, w). case operation w of (r, w') \<Rightarrow> (r, seen @ [Attempt], w'))"

definition observed_sleep :: "real \<Rightarrow> retry_event list \<times> 'w \<Rightarrow> retry_event list \<times> 'w" where
  "observed_sleep ms = (\<lambda>(seen, w). (seen @ [Backoff ms], w))"



section \<open>The outside world\<close>

text \<open>
  Everything the clients do to the outside goes through a few primitives:
  \<open>rateLimiter.waitForNextRequest()\<close>, the timer of \<open>delay\<close>, \<open>axios.get\<close> and the
  Playwright calls of the scraper.  The world is a trace of these calls together with an
  external state \<open>'x\<close> that decides what the transports answer and that holds the
  browser session.  The library calls themselves (axios, Playwright,
  \<open>encodeURIComponent\<close>, the arithmetic of doubles) are parameters, collected in
  \<open>env\<close>.  \<open>console.warn\<close> is not modelled.
\<close>

text \<open>
  A number in a result: one that came with the response, or the value of the builtin
  \<open>parseFloat\<close> or \<open>parseInt\<close> on a string.  The two builtins are not interpreted.
\<close>

datatype js_number = Num real | parseFloat js_string | parseInt js_string

record http_request =
  url :: js_string
  params :: "(js_string \<times> js_string) list"
  req_timeout :: "nat option"

text \<open>An entry of \<open>response.data.results\<close> of the places text search.\<close>

record raw_place =
  place_id :: "js_string option"
  raw_name :: "js_string option"
  formatted_address :: "js_string option"
  geometry_lat :: "js_number option"
  geometry_lng :: "js_number option"
  raw_rating :: "js_number option"
  user_ratings_total :: "js_number option"
  raw_types :: "js_string list option"
  business_status :: "js_string option"
  price_level :: "js_number option"

text \<open>\<open>response.data\<close> of the places text search.\<close>

record places_data =
  status :: "js_string option"
  error_message :: "js_string option"
  results :: "raw_place list option"

datatype axios_data = JsonData places_data | TextData js_string

text \<open>What \<open>page.evaluate\<close> pushes for one result element.\<close>

record raw_scraped =
  ev_name :: "js_string option"
  ev_address :: "js_string option"
  ev_rating :: "js_string option"
  ev_reviewCount :: "js_string option"
  ev_phone :: "js_string option"
  ev_website :: "js_string option"
  ev_businessUrl :: "js_string option"

record viewport_size =
  vp_width :: real
  vp_height :: real

text \<open>\<open>Required<ScraperConfig>\<close>, the configuration of a \<open>GoogleMapsScraper\<close>.\<close>

record scraper_config =
  headless :: bool
  timeout :: real
  scraper_maxRetries :: int
  respectRobots :: bool
  userAgent :: js_string
  viewport :: viewport_size

datatype io_event =
    RateLimiterWait
  | Delay real
  | AxiosGet http_request
  | NewPage
  | SetupPage
  | BrowserSearch js_string
  | ClosePage

record 'x world =
  trace :: "io_event list"
  ext :: 'x

text \<open>
  The Playwright calls of the scraper's \<open>searchBusinesses\<close>, each of which may
  reject: \<open>new_page\<close> is \<open>launchBrowser()\<close> followed by \<open>browser.newPage()\<close>;
  \<open>setup_page\<close> is \<open>setupPage(page)\<close>; \<open>scrape\<close> is \<open>page.goto(searchUrl)\<close>,
  \<open>page.waitForSelector\<close> and \<open>page.evaluate\<close>, resolving to the extracted records;
  \<open>close_page\<close> is \<open>page.close()\<close>.  \<open>encodeURIComponent\<close> throws on a string
  with an unpaired surrogate.
\<close>

record 'x env =
  axios_get :: "http_request \<Rightarrow> 'x \<Rightarrow> (js_error + axios_data) \<times> 'x"
  new_page :: "scraper_config \<Rightarrow> 'x \<Rightarrow> (js_error + unit) \<times> 'x"
  setup_page :: "scraper_config \<Rightarrow> 'x \<Rightarrow> (js_error + unit) \<times> 'x"
  scrape :: "scraper_config \<Rightarrow> js_string \<Rightarrow> 'x \<Rightarrow> (js_error + raw_scraped list) \<times> 'x"
  close_page :: "'x \<Rightarrow> (js_error + unit) \<times> 'x"
  encodeURIComponent :: "js_string \<Rightarrow> js_error + js_string"
  math :: js_math

text \<open>\<open>await this.rateLimiter.waitForNextRequest()\<close>: resolves, never rejects.\<close>

definition await_waitForNextRequest :: "'x world \<Rightarrow> 'x world" where
  "await_waitForNextRequest w = w\<lparr>trace := trace w @ [RateLimiterWait]\<rparr>"

text \<open>\<open>await this.delay(ms)\<close> of the rate limiter.\<close>

definition await_delay :: "real \<Rightarrow> 'x world \<Rightarrow> 'x world" where
  "await_delay ms w = w\<lparr>trace := trace w @ [Delay ms]\<rparr>"

definition await_axios_get ::
  "'x env \<Rightarrow> http_request \<Rightarrow> 'x world \<Rightarrow> (js_error + axios_data) \<times> 'x world"
where
  "await_axios_get env req w =
     (case axios_get env req (ext w) of
        (r, x') \<Rightarrow> (r, \<lparr>trace = trace w @ [AxiosGet req], ext = x'\<rparr>))"

definition await_new_page ::
  "'x env \<Rightarrow> scraper_config \<Rightarrow> 'x world \<Rightarrow> (js_error + unit) \<times> 'x world"
where
  "await_new_page env sc w =
     (case new_page env sc (ext w) of
        (r, x') \<Rightarrow> (r, \<lparr>trace = trace w @ [NewPage], ext = x'\<rparr>))"

definition await_setup_page ::
  "'x env \<Rightarrow> scraper_config \<Rightarrow> 'x world \<Rightarrow> (js_error + unit) \<times> 'x world"
where
  "await_setup_page env sc w =
     (case setup_page env sc (ext w) of
        (r, x') \<Rightarrow> (r, \<lparr>trace = trace w @ [SetupPage], ext = x'\<rparr>))"

definition await_scrape ::
  "'x env \<Rightarrow> scraper_config \<Rightarrow> js_string \<Rightarrow> 'x world \<Rightarrow> (js_error + raw_scraped list) \<times> 'x world"
where
  "await_scrape env sc searchUrl w =
     (case scrape env sc searchUrl (ext w) of
        (r, x') \<Rightarrow> (r, \<lparr>trace = trace w @ [BrowserSearch searchUrl], ext = x'\<rparr>))"

definition await_close_page :: "'x env \<Rightarrow> 'x world \<Rightarrow> (js_error + unit) \<times> 'x world" where
  "await_close_page env w =
     (case close_page env (ext w) of
        (r, x') \<Rightarrow> (r, \<lparr>trace = trace w @ [ClosePage], ext = x'\<rparr>))"

section \<open>google-places-client.ts: GooglePlacesClient\<close>

record BusinessSearchResult =
  bsr_id :: "js_string option"
  bsr_name :: "js_string option"
  bsr_address :: "js_string option"
  bsr_latitude :: "js_number option"
  bsr_longitude :: "js_number option"
  bsr_rating :: "js_number option"
  bsr_reviewCount :: "js_number option"
  bsr_types :: "js_string list option"
  bsr_businessStatus :: "js_string option"
  bsr_priceLevel :: "js_number option"

text \<open>Truthiness of an optional string: \<open>undefined\<close> and \<open>''\<close> are falsy.\<close>

definition truthy :: "js_string option \<Rightarrow> bool" where
  "truthy v = (case v of None \<Rightarrow> False | Some s \<Rightarrow> s \<noteq> [])"

text \<open>\<open>`${v}`\<close> for an optional string.\<close>

definition template :: "js_string option \<Rightarrow> js_string" where
  "template v = (case v of None \<Rightarrow> lit ''undefined'' | Some s \<Rightarrow> s)"

definition isValidSearchResult :: "raw_place \<Rightarrow> bool" where
  "isValidSearchResult result =
     (truthy (place_id result) \<and> truthy (raw_name result) \<and> truthy (formatted_address result) \<and>
      geometry_lat result \<noteq> None \<and> geometry_lng result \<noteq> None)"

definition mapSearchResults :: "raw_place list \<Rightarrow> BusinessSearchResult list" where
  "mapSearchResults rs =
     map (\<lambda>result.
            \<lparr>bsr_id = place_id result,
             bsr_name = raw_name result,
             bsr_address = formatted_address result,
             bsr_latitude = geometry_lat result,
             bsr_longitude = geometry_lng result,
             bsr_rating = raw_rating result,
             bsr_reviewCount = user_ratings_total result,
             bsr_types = raw_types result,
             bsr_businessStatus = business_status result,
             bsr_priceLevel = price_level result\<rparr>)
         (filter isValidSearchResult rs)"

definition baseUrl :: js_string where
  "baseUrl = lit ''https://maps.googleapis.com/maps/api/place''"

text \<open>\<open>new GooglePlacesClient(apiKey, rateLimiter)\<close>; the client's state is its key.\<close>

definition new_GooglePlacesClient :: "js_string \<Rightarrow> js_error + js_string" where
  "new_GooglePlacesClient apiKey =
     (if apiKey = [] \<or> trim apiKey = [] then Inl (Error (lit ''API key is required''))
      else Inr apiKey)"

text \<open>The body of the \<open>try\<close> block after the response arrived.\<close>

definition interpret_status :: "axios_data \<Rightarrow> js_error + BusinessSearchResult list" where
  "interpret_status response_data =
     (let d = (case response_data of
                 JsonData j \<Rightarrow> j
               | TextData t \<Rightarrow> \<lparr>status = None, error_message = None, results = None\<rparr>)
      in if status d = Some (lit ''REQUEST_DENIED'')
         then Inl (Error (lit ''Google Places API error: '' @ template (error_message d)))
         else if status d = Some (lit ''ZERO_RESULTS'') then Inr []
         else if status d \<noteq> Some (lit ''OK'')
         then Inl (Error (lit ''Google Places API error: '' @
                 template (if truthy (error_message d) then error_message d else status d)))
         else Inr (mapSearchResults (case results d of None \<Rightarrow> [] | Some rs \<Rightarrow> rs)))"

text \<open>The \<open>catch\<close> block: a transport error with status 429 is replaced.\<close>

definition catch_rate_limit :: "js_error \<Rightarrow> js_error" where
  "catch_rate_limit error =
     (if isAxiosError error \<and> response_status error = Some 429
      then Error (lit ''Rate limit exceeded. Please try again later.'')
      else error)"

text \<open>The request of \<open>axios.get(`${this.baseUrl}/textsearch/json`, { params })\<close>.\<close>

definition textsearch_request :: "js_string \<Rightarrow> js_string \<Rightarrow> js_string \<Rightarrow> http_request" where
  "textsearch_request apiKey query location =
     \<lparr>url = baseUrl @ lit ''/textsearch/json'',
      params = [(lit ''query'', query @ lit '' in '' @ location), (lit ''key'', apiKey),
                (lit ''type'', lit ''establishment'')],
      req_timeout = None\<rparr>"

definition places_searchBusinesses ::
  "'x env \<Rightarrow> js_string \<Rightarrow> js_string \<Rightarrow> js_string \<Rightarrow> 'x world \<Rightarrow>
     (js_error + BusinessSearchResult list) \<times> 'x world"
where
  "places_searchBusinesses env apiKey query location w =
     (if query = [] \<or> trim query = [] then (Inl (Error (lit ''Query is required'')), w)
      else if location = [] \<or> trim location = []
      then (Inl (Error (lit ''Location is required'')), w)
      else
        (case await_axios_get env (textsearch_request apiKey query location)
                (await_waitForNextRequest w) of
           (Inl error, w') \<Rightarrow> (Inl (catch_rate_limit error), w')
         | (Inr response_data, w') \<Rightarrow>
             (case interpret_status response_data of
                Inl error \<Rightarrow> (Inl (catch_rate_limit error), w')
              | Inr found \<Rightarrow> (Inr found, w'))))"

section \<open>google-maps-scraper.ts: GoogleMapsScraper\<close>

record ScrapedBusinessResult =
  sbr_name :: "js_string option"
  sbr_address :: "js_string option"
  sbr_rating :: "js_number option"
  sbr_reviewCount :: "js_number option"
  sbr_phone :: "js_string option"
  sbr_website :: "js_string option"
  sbr_businessUrl :: "js_string option"

text \<open>\<open>v || undefined\<close> and \<open>v ? parse(v) : undefined\<close> on an optional string.\<close>

definition or_undefined :: "js_string option \<Rightarrow> js_string option" where
  "or_undefined v = (if truthy v then v else None)"

definition parse_if_truthy :: "(js_string \<Rightarrow> js_number) \<Rightarrow> js_string option \<Rightarrow> js_number option" where
  "parse_if_truthy parse v =
     (case v of None \<Rightarrow> None | Some s \<Rightarrow> if s \<noteq> [] then Some (parse s) else None)"

definition isValidScrapedResult :: "raw_scraped \<Rightarrow> bool" where
  "isValidScrapedResult result = (truthy (ev_name result) \<and> truthy (ev_address result))"

definition mapScrapedResults :: "raw_scraped list \<Rightarrow> ScrapedBusinessResult list" where
  "mapScrapedResults rs =
     map (\<lambda>result.
            \<lparr>sbr_name = ev_name result,
             sbr_address = ev_address result,
             sbr_rating = parse_if_truthy parseFloat (ev_rating result),
             sbr_reviewCount = parse_if_truthy parseInt (ev_reviewCount result),
             sbr_phone = or_undefined (ev_phone result),
             sbr_website = or_undefined (ev_website result),
             sbr_businessUrl = or_undefined (ev_businessUrl result)\<rparr>)
         (filter isValidScrapedResult rs)"

definition buildSearchUrl :: "'x env \<Rightarrow> js_string \<Rightarrow> js_string \<Rightarrow> js_error + js_string" where
  "buildSearchUrl env query location =
     (case encodeURIComponent env (query @ lit '' '' @ location) of
        Inl error \<Rightarrow> Inl error
      | Inr searchQuery \<Rightarrow>
          Inr (lit ''https://www.google.com/maps/search/'' @
               replaceAll searchQuery (lit ''%20'') (lit ''+'')))"

text \<open>
  The loop of \<open>respectRobotsTxt\<close> over the lines of the document; \<open>False\<close> is the
  \<open>return false\<close> inside the loop, \<open>True\<close> the \<open>return true\<close> after it.
\<close>

definition field_after_colon :: "js_string \<Rightarrow> js_string option" where
  "field_after_colon trimmedLine =
     map_option trim (at_index (split trimmedLine (of_char CHR '':'')) 1)"

fun robots_lines :: "js_string list \<Rightarrow> bool \<Rightarrow> bool" where
  "robots_lines [] isOurSection = True"
| "robots_lines (line # lines) isOurSection =
     (let trimmedLine = trim line;
          isOurSection' =
            (if startsWith trimmedLine (lit ''User-agent:'')
             then (let userAgent = field_after_colon trimmedLine
                   in userAgent = Some (lit ''*'') \<or> userAgent = Some (lit ''GoogleBot''))
             else isOurSection)
      in if isOurSection' \<and> startsWith trimmedLine (lit ''Disallow:'') \<and>
            (let disallowedPath = field_after_colon trimmedLine
             in disallowedPath = Some (lit ''/maps'') \<or> disallowedPath = Some (lit ''/''))
         then False
         else robots_lines lines isOurSection')"

text \<open>The \<open>try\<close> body of \<open>respectRobotsTxt\<close> on a fetched text document.\<close>

definition robots_allows :: "js_string \<Rightarrow> bool" where
  "robots_allows robotsTxt =
     (if includes_str robotsTxt (lit ''Disallow: /maps'') then False
      else robots_lines (split robotsTxt 0x0A) False)"

text \<open>
  A rejected request, and a body that is not a string (\<open>robotsTxt.includes\<close> is then
  not a function), both end in the \<open>catch\<close> block, which returns \<open>true\<close>.
\<close>

definition robots_request :: http_request where
  "robots_request =
     \<lparr>url = lit ''https://www.google.com/robots.txt'', params = [], req_timeout = Some 5000\<rparr>"

definition respectRobotsTxt :: "'x env \<Rightarrow> 'x world \<Rightarrow> bool \<times> 'x world" where
  "respectRobotsTxt env w =
     (case await_axios_get env robots_request w of
        (Inl error, w') \<Rightarrow> (True, w')
      | (Inr (TextData robotsTxt), w') \<Rightarrow> (robots_allows robotsTxt, w')
      | (Inr (JsonData j), w') \<Rightarrow> (True, w'))"

text \<open>
  The body of the \<open>try\<close> block of \<open>searchBusinesses\<close>, on the page that was opened.
\<close>

definition scrape_in_page ::
  "'x env \<Rightarrow> scraper_config \<Rightarrow> js_string \<Rightarrow> js_string \<Rightarrow> 'x world \<Rightarrow>
     (js_error + ScrapedBusinessResult list) \<times> 'x world"
where
  "scrape_in_page env sc query location w =
     (case await_setup_page env sc w of
        (Inl error, w1) \<Rightarrow> (Inl error, w1)
      | (Inr ready, w1) \<Rightarrow>
          (case buildSearchUrl env query location of
             Inl error \<Rightarrow> (Inl error, w1)
           | Inr searchUrl \<Rightarrow>
               (case await_scrape env sc searchUrl w1 of
                  (Inl error, w2) \<Rightarrow> (Inl error, w2)
                | (Inr businesses, w2) \<Rightarrow> (Inr (mapScrapedResults businesses), w2))))"

text \<open>
  The page is opened before the \<open>try\<close> block and closed in its \<open>finally\<close>; a
  rejection of \<open>page.close()\<close> replaces the outcome of the block.
\<close>

definition scraper_searchBusinesses ::
  "'x env \<Rightarrow> scraper_config \<Rightarrow> js_string \<Rightarrow> js_string \<Rightarrow> 'x world \<Rightarrow>
     (js_error + ScrapedBusinessResult list) \<times> 'x world"
where
  "scraper_searchBusinesses env sc query location w =
     (if query = [] \<or> trim query = [] then (Inl (Error (lit ''Query is required'')), w)
      else if location = [] \<or> trim location = []
      then (Inl (Error (lit ''Location is required'')), w)
      else
        (case (if respectRobots sc then respectRobotsTxt env w else (True, w)) of
           (allowed, w1) \<Rightarrow>
             if \<not> allowed then (Inl (Error (lit ''Scraping not allowed by robots.txt'')), w1)
             else
               (case await_new_page env sc w1 of
                  (Inl error, w2) \<Rightarrow> (Inl error, w2)
                | (Inr page, w2) \<Rightarrow>
                    (case scrape_in_page env sc query location w2 of
                       (outcome, w3) \<Rightarrow>
                         (case await_close_page env w3 of
                            (Inl error, w4) \<Rightarrow> (Inl error, w4)
                          | (Inr finished, w4) \<Rightarrow> (outcome, w4))))))"

section \<open>config.ts: MapsConfig and MapsConfigManager\<close>

record scraping_config =
  enabled :: bool
  scraping_headless :: bool
  scraping_timeout :: real
  scraping_maxRetries :: int
  scraping_respectRobots :: bool
  scraping_userAgent :: js_string
  scraping_viewport :: viewport_size

record rateLimiting_config =
  rateLimiting_requestsPerSecond :: real
  rateLimiting_maxRetries :: int
  rateLimiting_baseDelay :: real
  rateLimiting_maxDelay :: real
  rateLimiting_backoffMultiplier :: real

record MapsConfig =
  googlePlacesApiKey :: "js_string option"
  useApiFirst :: bool
  scraping :: scraping_config
  rateLimiting :: rateLimiting_config

text \<open>
  \<open>Partial<MapsConfig>\<close>: each top-level property may be absent (\<open>None\<close>); the key,
  when present, may hold \<open>undefined\<close>.
\<close>

record MapsConfig_partial =
  partial_googlePlacesApiKey :: "js_string option option"
  partial_useApiFirst :: "bool option"
  partial_scraping :: "scraping_config option"
  partial_rateLimiting :: "rateLimiting_config option"

text \<open>\<open>{ ...base, ...updates }\<close>: a shallow merge.\<close>

definition spread :: "MapsConfig \<Rightarrow> MapsConfig_partial \<Rightarrow> MapsConfig" where
  "spread base updates =
     \<lparr>googlePlacesApiKey =
        (case partial_googlePlacesApiKey updates of None \<Rightarrow> googlePlacesApiKey base | Some k \<Rightarrow> k),
      useApiFirst = (case partial_useApiFirst updates of None \<Rightarrow> useApiFirst base | Some b \<Rightarrow> b),
      scraping = (case partial_scraping updates of None \<Rightarrow> scraping base | Some sc \<Rightarrow> sc),
      rateLimiting = (case partial_rateLimiting updates of None \<Rightarrow> rateLimiting base | Some r \<Rightarrow> r)\<rparr>"

text \<open>
  \<open>validateConfig\<close> of the manager whose \<open>this.config\<close> is \<open>c\<close>; the result is the
  list \<open>errors\<close>, and \<open>isValid\<close> is \<open>errors.length === 0\<close>.
\<close>

definition validateConfig :: "MapsConfig \<Rightarrow> js_string list" where
  "validateConfig c =
     (if \<not> truthy (googlePlacesApiKey c) \<and> \<not> enabled (scraping c)
      then [lit ''Either Google Places API key or web scraping must be enabled''] else []) @
     (if rateLimiting_requestsPerSecond (rateLimiting c) \<le> 0
      then [lit ''Rate limiting requests per second must be positive''] else []) @
     (if rateLimiting_maxRetries (rateLimiting c) < 0
      then [lit ''Rate limiting max retries must be non-negative''] else []) @
     (if rateLimiting_baseDelay (rateLimiting c) \<le> 0
      then [lit ''Rate limiting base delay must be positive''] else []) @
     (if rateLimiting_maxDelay (rateLimiting c) \<le> 0
      then [lit ''Rate limiting max delay must be positive''] else []) @
     (if rateLimiting_backoffMultiplier (rateLimiting c) \<le> 1
      then [lit ''Rate limiting backoff multiplier must be greater than 1''] else []) @
     (if enabled (scraping c) then
        (if scraping_timeout (scraping c) \<le> 0
         then [lit ''Scraping timeout must be positive''] else []) @
        (if scraping_maxRetries (scraping c) < 0
         then [lit ''Scraping max retries must be non-negative''] else []) @
        (if scraping_userAgent (scraping c) = [] \<or> trim (scraping_userAgent (scraping c)) = []
         then [lit ''Scraping user agent is required''] else []) @
        (if vp_width (scraping_viewport (scraping c)) \<le> 0 \<or>
            vp_height (scraping_viewport (scraping c)) \<le> 0
         then [lit ''Scraping viewport dimensions must be positive''] else [])
      else [])"

definition isValid :: "js_string list \<Rightarrow> bool" where
  "isValid errors = (length errors = 0)"

text \<open>\<open>errors.join(sep)\<close>\<close>

fun join :: "js_string list \<Rightarrow> js_string \<Rightarrow> js_string" where
  "join [] sep = []"
| "join [x] sep = x"
| "join (x # y # ys) sep = x @ sep @ join (y # ys) sep"

section \<open>The orchestrator: MapsClient\<close>

datatype provenance = Api | Scraper

record UnifiedBusinessResult =
  u_id :: "js_string option"
  u_name :: "js_string option"
  u_address :: "js_string option"
  u_location :: "(js_number option \<times> js_number option) option"
  u_rating :: "js_number option"
  u_reviewCount :: "js_number option"
  u_phone :: "js_string option"
  u_website :: "js_string option"
  u_types :: "js_string list option"
  u_businessStatus :: "js_string option"
  u_priceLevel :: "js_number option"
  source :: provenance

record MapsClient =
  config :: MapsConfig
  rateLimiter :: limiter
  placesClient :: "js_string option"
  scraper :: "scraper_config option"

text \<open>
  The constructor.  \<open>singleton\<close> is the configuration held by the exported
  \<open>mapsConfig\<close> manager; \<open>override\<close> is the constructor's optional argument.
\<close>

definition new_MapsClient :: "MapsConfig \<Rightarrow> MapsConfig_partial option \<Rightarrow> js_error + MapsClient" where
  "new_MapsClient singleton override =
     (let this_config = (case override of None \<Rightarrow> singleton | Some c \<Rightarrow> spread singleton c);
          validation = validateConfig singleton
      in if \<not> isValid validation
         then Inl (Error (lit ''Invalid configuration: '' @ join validation (lit '', '')))
         else
           (let this_rateLimiter = new_limiter
                  \<lparr>cfg_requestsPerSecond = Some (rateLimiting_requestsPerSecond (rateLimiting this_config)),
                   cfg_maxRetries = Some (rateLimiting_maxRetries (rateLimiting this_config)),
                   cfg_baseDelay = Some (rateLimiting_baseDelay (rateLimiting this_config)),
                   cfg_maxDelay = Some (rateLimiting_maxDelay (rateLimiting this_config)),
                   cfg_backoffMultiplier = Some (rateLimiting_backoffMultiplier (rateLimiting this_config))\<rparr>;
                this_scraper =
                  (if enabled (scraping this_config)
                   then Some \<lparr>headless = scraping_headless (scraping this_config),
                              timeout = scraping_timeout (scraping this_config),
                              scraper_maxRetries = scraping_maxRetries (scraping this_config),
                              respectRobots = scraping_respectRobots (scraping this_config),
                              userAgent = scraping_userAgent (scraping this_config),
                              viewport = scraping_viewport (scraping this_config)\<rparr>
                   else None)
            in case (case googlePlacesApiKey this_config of
                       None \<Rightarrow> Inr None
                     | Some k \<Rightarrow>
                         if k = [] then Inr None
                         else (case new_GooglePlacesClient k of
                                 Inl e \<Rightarrow> Inl e
                               | Inr client \<Rightarrow> Inr (Some client))) of
                 Inl e \<Rightarrow> Inl e
               | Inr this_placesClient \<Rightarrow>
                   Inr \<lparr>config = this_config, rateLimiter = this_rateLimiter,
                        placesClient = this_placesClient, scraper = this_scraper\<rparr>))"

record search_options =
  maxResults :: "int option"
  preferApi :: "bool option"

text \<open>\<open>xs.slice(start, fin)\<close> with integer arguments.\<close>

definition slice :: "'a list \<Rightarrow> int \<Rightarrow> int \<Rightarrow> 'a list" where
  "slice xs start fin =
     (let len = int (length xs);
          k = (if start < 0 then max (len + start) 0 else min start len);
          final = (if fin < 0 then max (len + fin) 0 else min fin len)
      in take (nat (final - k)) (drop (nat k) xs))"

definition mapApiResults :: "BusinessSearchResult list \<Rightarrow> UnifiedBusinessResult list" where
  "mapApiResults rs =
     map (\<lambda>result.
            \<lparr>u_id = bsr_id result,
             u_name = bsr_name result,
             u_address = bsr_address result,
             u_location = Some (bsr_latitude result, bsr_longitude result),
             u_rating = bsr_rating result,
             u_reviewCount = bsr_reviewCount result,
             u_phone = None,
             u_website = None,
             u_types = bsr_types result,
             u_businessStatus = bsr_businessStatus result,
             u_priceLevel = bsr_priceLevel result,
             source = Api\<rparr>) rs"

definition mapScraperResults :: "ScrapedBusinessResult list \<Rightarrow> UnifiedBusinessResult list" where
  "mapScraperResults rs =
     map (\<lambda>result.
            \<lparr>u_id = None,
             u_name = sbr_name result,
             u_address = sbr_address result,
             u_location = None,
             u_rating = sbr_rating result,
             u_reviewCount = sbr_reviewCount result,
             u_phone = sbr_phone result,
             u_website = sbr_website result,
             u_types = None,
             u_businessStatus = None,
             u_priceLevel = None,
             source = Scraper\<rparr>) rs"

definition searchWithApi ::
  "'x env \<Rightarrow> MapsClient \<Rightarrow> js_string \<Rightarrow> js_string \<Rightarrow> 'x world \<Rightarrow>
     (js_error + BusinessSearchResult list) \<times> 'x world \<times> retry_event list"
where
  "searchWithApi env this query location w =
     (case placesClient this of
        None \<Rightarrow> (Inl (Error (lit ''Places API client not available'')), w, [])
      | Some apiKey \<Rightarrow>
          retryWithBackoff (math env) await_delay (rateLimiter this)
            (places_searchBusinesses env apiKey query location) 0 w)"

definition searchWithScraper ::
  "'x env \<Rightarrow> MapsClient \<Rightarrow> js_string \<Rightarrow> js_string \<Rightarrow> 'x world \<Rightarrow>
     (js_error + ScrapedBusinessResult list) \<times> 'x world \<times> retry_event list"
where
  "searchWithScraper env this query location w =
     (case scraper this of
        None \<Rightarrow> (Inl (Error (lit ''Scraper not available'')), w, [])
      | Some sc \<Rightarrow>
          retryWithBackoff (math env) await_delay (rateLimiter this)
            (scraper_searchBusinesses env sc query location) 0 w)"

text \<open>
  \<open>searchBusinesses\<close> from the comment "Try scraper as fallback or primary method" to
  the end of the function.
\<close>

definition scraper_or_fail ::
  "'x env \<Rightarrow> MapsClient \<Rightarrow> js_string \<Rightarrow> js_string \<Rightarrow> int \<Rightarrow> bool \<Rightarrow> 'x world \<Rightarrow>
     (js_error + UnifiedBusinessResult list) \<times> 'x world"
where
  "scraper_or_fail env this query location maxR prefer w =
     (if scraper this \<noteq> None then
        (case searchWithScraper env this query location w of
           (Inr scraperResults, w', evs) \<Rightarrow>
             (Inr (slice (mapScraperResults scraperResults) 0 maxR), w')
         | (Inl error, w', evs) \<Rightarrow>
             if \<not> prefer \<and> placesClient this \<noteq> None then
               (case searchWithApi env this query location w' of
                  (Inr apiResults, w'', evs') \<Rightarrow> (Inr (slice (mapApiResults apiResults) 0 maxR), w'')
                | (Inl error', w'', evs') \<Rightarrow> (Inl error', w''))
             else (Inl error, w'))
      else (Inl (Error (lit ''No search methods available. Please configure API key or enable scraping.'')),
            w))"

definition searchBusinesses ::
  "'x env \<Rightarrow> MapsClient \<Rightarrow> js_string \<Rightarrow> js_string \<Rightarrow> search_options \<Rightarrow> 'x world \<Rightarrow>
     (js_error + UnifiedBusinessResult list) \<times> 'x world"
where
  "searchBusinesses env this query location options w =
     (let maxR = (case maxResults options of None \<Rightarrow> 20 | Some m \<Rightarrow> m);
          prefer = (case preferApi options of None \<Rightarrow> useApiFirst (config this) | Some b \<Rightarrow> b)
      in if query = [] \<or> trim query = [] then (Inl (Error (lit ''Query is required'')), w)
         else if location = [] \<or> trim location = []
         then (Inl (Error (lit ''Location is required'')), w)
         else if prefer \<and> placesClient this \<noteq> None then
           (case searchWithApi env this query location w of
              (Inr apiResults, w', evs) \<Rightarrow>
                (let unifiedResults = mapApiResults apiResults
                 in if length unifiedResults > 0 then (Inr (slice unifiedResults 0 maxR), w')
                    else scraper_or_fail env this query location maxR prefer w')
            | (Inl error, w', evs) \<Rightarrow> scraper_or_fail env this query location maxR prefer w')
         else scraper_or_fail env this query location maxR prefer w)"

section \<open>The pacing queue of the rate limiter\<close>

text \<open>
  JavaScript runs one task at a time, so the queue is a state machine whose steps are
  the tasks: a call of \<open>waitForNextRequest\<close> (which runs \<open>processQueue\<close> up to its
  first \<open>await\<close> when no drain is active), and the timer of \<open>delay\<close> firing, which
  resumes a suspended \<open>processQueue\<close> at the head of its loop.  The callers are
  identified by their \<open>resolve\<close> callbacks.  Three fields are ghost state: the callers
  in the order of their \<open>push\<close>, the callers in the order of their \<open>resolve()\<close>, and
  the number of activations of \<open>processQueue\<close> that have not returned.
\<close>

record 'c queue_entry =
  resolve :: 'c
  timestamp :: nat

record 'c pacing =
  requestQueue :: "'c queue_entry list"
  processing :: bool
  enqueued :: "'c list"
  released :: "'c list"
  drains :: nat

definition pacing_init :: "'c pacing" where
  "pacing_init = \<lparr>requestQueue = [], processing = False, enqueued = [], released = [], drains = 0\<rparr>"

text \<open>
  From the loop test of \<open>processQueue\<close> to its next suspension (after \<open>shift\<close> and
  \<open>resolve()\<close>, at \<open>await this.delay(interval)\<close>) or to its return.
\<close>

definition processQueue_loop :: "'c pacing \<Rightarrow> 'c pacing" where
  "processQueue_loop s =
     (case requestQueue s of
        [] \<Rightarrow> s\<lparr>processing := False, drains := drains s - 1\<rparr>
      | request # rest \<Rightarrow> s\<lparr>requestQueue := rest, released := released s @ [resolve request]\<rparr>)"

definition processQueue :: "'c pacing \<Rightarrow> 'c pacing" where
  "processQueue s = processQueue_loop (s\<lparr>processing := True, drains := drains s + 1\<rparr>)"

definition waitForNextRequest :: "'c \<Rightarrow> nat \<Rightarrow> 'c pacing \<Rightarrow> 'c pacing" where
  "waitForNextRequest caller now s =
     (let s' = s\<lparr>requestQueue := requestQueue s @ [\<lparr>resolve = caller, timestamp = now\<rparr>],
                 enqueued := enqueued s @ [caller]\<rparr>
      in if \<not> processing s' then processQueue s' else s')"

datatype 'c task = Call 'c nat | TimerFires

definition step :: "'c pacing \<Rightarrow> 'c task \<Rightarrow> 'c pacing" where
  "step s t =
     (case t of
        Call caller now \<Rightarrow> waitForNextRequest caller now s
      | TimerFires \<Rightarrow> if drains s > 0 then processQueue_loop s else s)"

definition run :: "'c task list \<Rightarrow> 'c pacing" where
  "run ts = foldl step pacing_init ts"

text \<open>The callers of a sequence of tasks, in the order of their calls.\<close>

fun callers :: "'c task list \<Rightarrow> 'c list" where
  "callers [] = []"
| "callers (Call caller now # ts) = caller # callers ts"
| "callers (TimerFires # ts) = callers ts"

text \<open>The invariant of the queue.\<close>

definition pacing_inv :: "'c pacing \<Rightarrow> bool" where
  "pacing_inv s =
     (released s @ map resolve (requestQueue s) = enqueued s \<and>
      drains s \<le> 1 \<and> processing s = (drains s = 1))"

section \<open>The builtins on which the concrete runs rely\<close>

text \<open>
  \<open>encodeURIComponent\<close> as ECMAScript defines it: a code unit among the letters,
  the digits and \<open>- _ . ! ~ * ' ( )\<close> stays; any other code point is written as the
  octets of its UTF-8 encoding, each as \<open>%\<close> and two upper-case hexadecimal digits; an
  unpaired surrogate raises \<open>URIError\<close>.
\<close>

definition uriUnescaped :: "code_unit \<Rightarrow> bool" where
  "uriUnescaped c =
     ((0x41 \<le> c \<and> c \<le> 0x5A) \<or> (0x61 \<le> c \<and> c \<le> 0x7A) \<or> (0x30 \<le> c \<and> c \<le> 0x39) \<or>
      c \<in> {0x2D, 0x5F, 0x2E, 0x21, 0x7E, 0x2A, 0x27, 0x28, 0x29})"

definition hex_digit :: "nat \<Rightarrow> code_unit" where
  "hex_digit d = (if d < 10 then 0x30 + d else 0x41 + (d - 10))"

definition percent_octet :: "nat \<Rightarrow> js_string" where
  "percent_octet b = [0x25, hex_digit (b div 16), hex_digit (b mod 16)]"

definition utf8_octets :: "nat \<Rightarrow> nat list" where
  "utf8_octets cp =
     (if cp < 0x80 then [cp]
      else if cp < 0x800 then [0xC0 + cp div 0x40, 0x80 + cp mod 0x40]
      else if cp < 0x10000
      then [0xE0 + cp div 0x1000, 0x80 + (cp div 0x40) mod 0x40, 0x80 + cp mod 0x40]
      else [0xF0 + cp div 0x40000, 0x80 + (cp div 0x1000) mod 0x40,
            0x80 + (cp div 0x40) mod 0x40, 0x80 + cp mod 0x40])"

definition URIError :: js_error where
  "URIError = Error (lit ''URI malformed'')"

fun uri_encode :: "js_string \<Rightarrow> js_error + js_string" where
  "uri_encode [] = Inr []"
| "uri_encode (c # cs) =
     (if uriUnescaped c
      then (case uri_encode cs of Inl e \<Rightarrow> Inl e | Inr r \<Rightarrow> Inr (c # r))
      else if 0xDC00 \<le> c \<and> c \<le> 0xDFFF then Inl URIError
      else if 0xD800 \<le> c \<and> c \<le> 0xDBFF then
        (case cs of
           [] \<Rightarrow> Inl URIError
         | d # ds \<Rightarrow>
             if 0xDC00 \<le> d \<and> d \<le> 0xDFFF
             then (case uri_encode ds of
                     Inl e \<Rightarrow> Inl e
                   | Inr r \<Rightarrow>
                       Inr (concat (map percent_octet
                              (utf8_octets ((c - 0xD800) * 0x400 + (d - 0xDC00) + 0x10000))) @ r))
             else Inl URIError)
      else (case uri_encode cs of
              Inl e \<Rightarrow> Inl e
            | Inr r \<Rightarrow> Inr (concat (map percent_octet (utf8_octets c)) @ r)))"

text \<open>
  An arithmetic for the concrete runs.  On integers of magnitude up to \<open>2^53\<close> whose
  result is in that range the product of doubles is exact, and so is \<open>Math.pow\<close> as
  the engines compute it.  Outside that range this instance says nothing.
\<close>

definition safe_integer :: "real \<Rightarrow> bool" where
  "safe_integer x = (x \<in> \<int> \<and> \<bar>x\<bar> \<le> 2 ^ 53)"

definition integer_math :: js_math where
  "integer_math =
     \<lparr>multiply = (\<lambda>a b. if safe_integer a \<and> safe_integer b \<and> safe_integer (a * b)
                        then a * b else undefined),
      Math_pow = (\<lambda>a k. if safe_integer a \<and> safe_integer (a ^ k) then a ^ k else undefined)\<rparr>"

section \<open>Concrete configurations, transports and inputs\<close>

text \<open>
  A configuration as \<open>loadConfig\<close> produces it with an API key in the environment,
  and the client constructed from it.
\<close>

definition example_config :: MapsConfig where
  "example_config =
     \<lparr>googlePlacesApiKey = Some (lit ''test-key''),
      useApiFirst = True,
      scraping = \<lparr>enabled = True, scraping_headless = True, scraping_timeout = 30000,
                  scraping_maxRetries = 3, scraping_respectRobots = True,
                  scraping_userAgent = lit ''Mozilla/5.0'',
                  scraping_viewport = \<lparr>vp_width = 1920, vp_height = 1080\<rparr>\<rparr>,
      rateLimiting = \<lparr>rateLimiting_requestsPerSecond = 10, rateLimiting_maxRetries = 3,
                      rateLimiting_baseDelay = 1000, rateLimiting_maxDelay = 30000,
                      rateLimiting_backoffMultiplier = 2\<rparr>\<rparr>"

definition example_scraper :: scraper_config where
  "example_scraper =
     \<lparr>headless = True, timeout = 30000, scraper_maxRetries = 3, respectRobots = True,
      userAgent = lit ''Mozilla/5.0'', viewport = \<lparr>vp_width = 1920, vp_height = 1080\<rparr>\<rparr>"

definition example_client :: MapsClient where
  "example_client =
     \<lparr>config = example_config,
      rateLimiter = \<lparr>requestsPerSecond = 10, maxRetries = 3, baseDelay = 1000,
                     maxDelay = 30000, backoffMultiplier = 2\<rparr>,
      placesClient = Some (lit ''test-key''),
      scraper = Some example_scraper\<rparr>"

definition no_options :: search_options where
  "no_options = \<lparr>maxResults = None, preferApi = None\<rparr>"

text \<open>An override whose rate limiting is invalid, and a configuration with no source.\<close>

definition invalid_override :: MapsConfig_partial where
  "invalid_override =
     \<lparr>partial_googlePlacesApiKey = None, partial_useApiFirst = None, partial_scraping = None,
      partial_rateLimiting =
        Some \<lparr>rateLimiting_requestsPerSecond = - 1, rateLimiting_maxRetries = 3,
              rateLimiting_baseDelay = 1000, rateLimiting_maxDelay = 30000,
              rateLimiting_backoffMultiplier = 2\<rparr>\<rparr>"

definition invalid_config :: MapsConfig where
  "invalid_config =
     example_config\<lparr>googlePlacesApiKey := None,
                    scraping := (scraping example_config)\<lparr>enabled := False\<rparr>\<rparr>"

definition valid_override :: MapsConfig_partial where
  "valid_override =
     \<lparr>partial_googlePlacesApiKey = Some (Some (lit ''test-key'')), partial_useApiFirst = Some True,
      partial_scraping = Some (scraping example_config),
      partial_rateLimiting = Some (rateLimiting example_config)\<rparr>"

text \<open>
  A transport that counts its calls: the policy document is answered with
  \<open>robots_answer\<close>, every other request with \<open>places_answer\<close>; every Playwright call
  succeeds and the page holds one record.
\<close>

definition example_scraped :: raw_scraped where
  "example_scraped =
     \<lparr>ev_name = Some (lit ''Acme Cleaning''), ev_address = Some (lit ''1 Main St, Tampa, FL''),
      ev_rating = None, ev_reviewCount = None, ev_phone = None, ev_website = None,
      ev_businessUrl = None\<rparr>"

definition example_env :: "(js_error + axios_data) \<Rightarrow> (js_error + axios_data) \<Rightarrow> nat env" where
  "example_env places_answer robots_answer =
     \<lparr>axios_get = (\<lambda>req n. (if req = robots_request then robots_answer else places_answer, Suc n)),
      new_page = (\<lambda>sc n. (Inr (), Suc n)),
      setup_page = (\<lambda>sc n. (Inr (), Suc n)),
      scrape = (\<lambda>sc u n. (Inr [example_scraped], Suc n)),
      close_page = (\<lambda>n. (Inr (), Suc n)),
      encodeURIComponent = uri_encode,
      math = integer_math\<rparr>"

definition world_init :: "nat world" where
  "world_init = \<lparr>trace = [], ext = 0\<rparr>"

definition axios_error_429 :: js_error where
  "axios_error_429 =
     \<lparr>isAxiosError = True, response_status = Some 429, code = Some (lit ''ERR_BAD_REQUEST''),
      message = Some (lit ''Request failed with status code 429'')\<rparr>"

definition zero_results :: axios_data where
  "zero_results =
     JsonData \<lparr>status = Some (lit ''ZERO_RESULTS''), error_message = None, results = Some []\<rparr>"

definition robots_open :: axios_data where
  "robots_open = TextData (lit ''User-agent: *'' @ [0x0A] @ lit ''Allow: /search/about'' @ [0x0A])"

text \<open>A policy document whose only rule is in the section of another crawler.\<close>

definition other_bot_policy :: js_string where
  "other_bot_policy = lit ''User-agent: BadBot'' @ [0x0A] @ lit ''Disallow: /maps'' @ [0x0A]"

definition request_denied :: axios_data where
  "request_denied =
     JsonData \<lparr>status = Some (lit ''REQUEST_DENIED''),
               error_message = Some (lit ''The provided API key is invalid.''), results = Some []\<rparr>"

definition over_query_limit :: axios_data where
  "over_query_limit =
     JsonData \<lparr>status = Some (lit ''OVER_QUERY_LIMIT''), error_message = None, results = Some []\<rparr>"

definition place_one :: raw_place where
  "place_one =
     \<lparr>place_id = Some (lit ''ChIJ1''), raw_name = Some (lit ''Acme Cleaning''),
      formatted_address = Some (lit ''1 Main St, Tampa, FL''),
      geometry_lat = Some (Num 27.5), geometry_lng = Some (Num (- 82.5)),
      raw_rating = Some (Num 4.5), user_ratings_total = Some (Num 12),
      raw_types = None, business_status = None, price_level = None\<rparr>"

definition place_two :: raw_place where
  "place_two =
     \<lparr>place_id = Some (lit ''ChIJ2''), raw_name = Some (lit ''Bay Maids''),
      formatted_address = Some (lit ''2 Bay Rd, Tampa, FL''),
      geometry_lat = Some (Num 28), geometry_lng = Some (Num (- 82.25)),
      raw_rating = None, user_ratings_total = None,
      raw_types = None, business_status = None, price_level = None\<rparr>"

definition one_place :: axios_data where
  "one_place =
     JsonData \<lparr>status = Some (lit ''OK''), error_message = None, results = Some [place_one]\<rparr>"

definition two_places :: axios_data where
  "two_places =
     JsonData \<lparr>status = Some (lit ''OK''), error_message = None,
               results = Some [place_one, place_two]\<rparr>"


definition always_400 :: "nat \<Rightarrow> (js_error + unit) \<times> nat" where
  "always_400 n =
     (Inl \<lparr>isAxiosError = True, response_status = Some 400, code = Some (lit ''ERR_BAD_REQUEST''),
           message = Some (lit ''Request failed with status code 400'')\<rparr>, Suc n)"

definition capped_limiter :: limiter where
  "capped_limiter =
     new_limiter \<lparr>cfg_requestsPerSecond = None, cfg_maxRetries = Some 5, cfg_baseDelay = Some 1000,
                  cfg_maxDelay = Some 3000, cfg_backoffMultiplier = Some 2\<rparr>"


section \<open>Auxiliary facts\<close>

lemma startsWith_refl: "startsWith s s"
  by (induction s) auto

lemma includes_str_refl: "includes_str s s"
  by (cases s) (auto simp: startsWith_refl)

lemma includes_str_append: "includes_str (p @ s) s"
proof (induction p)
  case Nil
  show ?case by (simp add: includes_str_refl)
next
  case (Cons c p)
  then show ?case by simp
qed

lemma dropWhile_Nil_all: "(dropWhile P xs = []) = list_all P xs"
  by (simp add: list_all_iff)

text \<open>\<open>trim\<close> returns the empty string exactly on strings of whitespace.\<close>

lemma trim_Nil_conv: "(trim s = []) = list_all isWhitespace s"
proof
  assume "list_all isWhitespace s"
  then have d: "dropWhile isWhitespace s = []" by (simp only: dropWhile_Nil_all)
  show "trim s = []" unfolding trim_def d by simp
next
  assume t: "trim s = []"
  show "list_all isWhitespace s"
  proof (rule ccontr)
    assume "\<not> list_all isWhitespace s"
    then have ne: "dropWhile isWhitespace s \<noteq> []"
      by (simp only: dropWhile_Nil_all not_False_eq_True)
    then have "\<not> isWhitespace (hd (dropWhile isWhitespace s))" by (rule hd_dropWhile)
    moreover have "hd (dropWhile isWhitespace s) \<in> set (rev (dropWhile isWhitespace s))"
      using ne by simp
    ultimately have "\<not> list_all isWhitespace (rev (dropWhile isWhitespace s))"
      by (auto simp: list_all_iff)
    then have "dropWhile isWhitespace (rev (dropWhile isWhitespace s)) \<noteq> []"
      by (simp only: dropWhile_Nil_all not_False_eq_True)
    with t show False unfolding trim_def by (simp only: rev_is_Nil_conv)
  qed
qed

lemma blank_conv: "(s = [] \<or> trim s = []) = list_all isWhitespace s"
  by (auto simp: trim_Nil_conv)

subsection \<open>The limiter's constructor\<close>

text \<open>
  The defaults are applied with \<open>||\<close>, so a configured \<open>maxRetries\<close> of 0 gives a
  limiter that allows 3 retries; every other integer is kept.
\<close>

lemma new_limiter_maxRetries:
  "maxRetries (new_limiter c) =
     (case cfg_maxRetries c of None \<Rightarrow> 3 | Some n \<Rightarrow> if n = 0 then 3 else n)"
  by (simp add: new_limiter_def or_default_def split: option.splits)

subsection \<open>A retry that never succeeds, as its observer sees it\<close>





subsection \<open>Plain errors, slices and concrete runs\<close>

lemma message_Error: "message (Error msg) = Some msg"
  by (simp add: Error_def)

lemma catch_rate_limit_Error: "catch_rate_limit (Error msg) = Error msg"
  by (simp add: catch_rate_limit_def Error_def)

lemma slice_length: "0 \<le> n \<Longrightarrow> int (length (slice xs 0 n)) \<le> n"
  by (simp add: slice_def Let_def)

lemma slice_take: "0 \<le> n \<Longrightarrow> slice xs 0 n = take (nat n) xs"
  by (cases "n \<le> int (length xs)") (simp_all add: slice_def Let_def min_def)

text \<open>The equations that evaluate a search on the concrete transports.\<close>

lemmas run_simps = searchBusinesses_def scraper_or_fail_def searchWithApi_def searchWithScraper_def
  places_searchBusinesses_def scraper_searchBusinesses_def scrape_in_page_def respectRobotsTxt_def
  robots_allows_def await_axios_get_def await_waitForNextRequest_def await_new_page_def
  await_setup_page_def await_scrape_def await_close_page_def await_delay_def
  example_env_def example_client_def example_config_def example_scraper_def no_options_def
  world_init_def zero_results_def robots_open_def one_place_def two_places_def place_one_def
  place_two_def request_denied_def over_query_limit_def other_bot_policy_def axios_error_429_def
  interpret_status_def catch_rate_limit_def textsearch_request_def robots_request_def baseUrl_def
  buildSearchUrl_def uriUnescaped_def hex_digit_def percent_octet_def utf8_octets_def
  mapScrapedResults_def mapApiResults_def mapScraperResults_def mapSearchResults_def
  isValidScrapedResult_def isValidSearchResult_def example_scraped_def truthy_def template_def
  or_undefined_def parse_if_truthy_def slice_def Let_def trim_def isWhitespace_def
  field_after_colon_def isRetryableError_def Error_def lit_def retryWithBackoff.simps

subsection \<open>The constructed client\<close>

lemma new_MapsClient_example: "new_MapsClient example_config None = Inr example_client"
  by (simp add: new_MapsClient_def new_GooglePlacesClient_def new_limiter_def or_default_def
      validateConfig_def isValid_def example_config_def example_client_def example_scraper_def
      truthy_def trim_def isWhitespace_def lit_def Let_def)

subsection \<open>A rate-limited transport and the policy gate\<close>

text \<open>
  Whatever the limiter, a text search that the transport rejects with status 429 is
  attempted once: the client replaces the error by a plain one, which
  \<open>isRetryableError\<close> does not recognise.
\<close>

lemma rate_limit_message_not_retryable:
  "\<not> isRetryableError (Error (lit ''Rate limit exceeded. Please try again later.''))"
  by (simp add: isRetryableError_def Error_def lit_def)

lemma rate_limited_transport_single_attempt:
  assumes "\<not> list_all isWhitespace query" and "\<not> list_all isWhitespace location"
    and "axios_get env (textsearch_request apiKey query location) (ext w) = (Inl e, x')"
    and "isAxiosError e" and "response_status e = Some 429"
  shows "retryWithBackoff m delay rl (places_searchBusinesses env apiKey query location) k w =
           (Inl (Error (lit ''Rate limit exceeded. Please try again later.'')),
            \<lparr>trace = trace w @ [RateLimiterWait, AxiosGet (textsearch_request apiKey query location)],
             ext = x'\<rparr>,
            [Attempt])"
proof -
  have q: "\<not> (query = [] \<or> trim query = [])" and l: "\<not> (location = [] \<or> trim location = [])"
    using assms(1,2) by (simp_all only: blank_conv not_False_eq_True)
  have once: "places_searchBusinesses env apiKey query location w =
      (Inl (Error (lit ''Rate limit exceeded. Please try again later.'')),
       \<lparr>trace = trace w @ [RateLimiterWait, AxiosGet (textsearch_request apiKey query location)],
        ext = x'\<rparr>)"
    using q l assms(3-5)
    by (simp add: places_searchBusinesses_def await_axios_get_def await_waitForNextRequest_def
        catch_rate_limit_def)
  show ?thesis
    by (simp add: retryWithBackoff.simps[of m delay rl _ k w] once rate_limit_message_not_retryable)
qed

text \<open>
  The substring test of \<open>respectRobotsTxt\<close> decides before any section is read: a
  document that contains \<open>Disallow: /maps\<close> anywhere is refused.
\<close>

lemma substring_test_ignores_sections:
  "includes_str robotsTxt (lit ''Disallow: /maps'') \<Longrightarrow> \<not> robots_allows robotsTxt"
  by (simp add: robots_allows_def)

text \<open>The policy gate is open when the document cannot be fetched.\<close>

lemma robots_fetch_failure_proceeds:
  "axios_get env robots_request (ext w) = (Inl e, x') \<Longrightarrow>
   respectRobotsTxt env w = (True, \<lparr>trace = trace w @ [AxiosGet robots_request], ext = x'\<rparr>)"
  by (simp add: respectRobotsTxt_def await_axios_get_def)

subsection \<open>The invariant of the pacing queue\<close>

lemma callers_append: "callers (ts @ us) = callers ts @ callers us"
  by (induction ts rule: callers.induct) auto

lemma run_snoc: "run (ts @ [t]) = step (run ts) t"
  by (simp add: run_def)

lemma pacing_inv_init: "pacing_inv pacing_init"
  by (simp add: pacing_inv_def pacing_init_def)

lemma shift_after_push:
  "q @ [e] = first # rest \<Longrightarrow> resolve first # map resolve rest = map resolve q @ [resolve e]"
  by (drule arg_cong[where f = "map resolve"]) simp

lemma pacing_inv_step:
  assumes inv: "pacing_inv s"
  shows "pacing_inv (step s t)"
proof (cases t)
  case (Call caller now)
  show ?thesis
  proof (cases "processing s")
    case True
    with inv Call show ?thesis
      by (simp add: pacing_inv_def step_def waitForNextRequest_def Let_def)
  next
    case False
    obtain first rest
      where q: "requestQueue s @ [\<lparr>resolve = caller, timestamp = now\<rparr>] = first # rest"
      by (cases "requestQueue s @ [\<lparr>resolve = caller, timestamp = now\<rparr>]") auto
    from shift_after_push[OF q]
    have m: "resolve first # map resolve rest = map resolve (requestQueue s) @ [caller]" by simp
    from False inv have d: "drains s = 0" by (auto simp: pacing_inv_def)
    from inv have e: "released s @ map resolve (requestQueue s) = enqueued s"
      by (simp add: pacing_inv_def)
    show ?thesis using Call False q m d e
      by (simp add: pacing_inv_def step_def waitForNextRequest_def processQueue_def
          processQueue_loop_def Let_def)
  qed
next
  case TimerFires
  with inv show ?thesis
    by (auto simp: pacing_inv_def step_def processQueue_loop_def split: list.splits)
qed

lemma pacing_inv_run: "pacing_inv (run ts)"
proof (induction ts rule: rev_induct)
  case Nil
  show ?case by (simp add: run_def pacing_inv_init)
next
  case (snoc t ts)
  then show ?case by (simp add: run_snoc pacing_inv_step)
qed

lemma enqueued_step: "enqueued (step s t) = enqueued s @ callers [t]"
  by (cases t)
     (auto simp: step_def waitForNextRequest_def processQueue_def processQueue_loop_def Let_def
        split: list.splits)

lemma enqueued_run: "enqueued (run ts) = callers ts"
proof (induction ts rule: rev_induct)
  case Nil
  show ?case by (simp add: run_def pacing_init_def)
next
  case (snoc t ts)
  then show ?case by (simp add: run_snoc enqueued_step callers_append)
qed

lemma flag_cleared:
  "processing s \<Longrightarrow> \<not> processing (step s t) \<Longrightarrow> requestQueue s = [] \<and> t = TimerFires"
  by (cases t)
     (auto simp: step_def waitForNextRequest_def processQueue_def processQueue_loop_def Let_def
        split: list.splits if_splits)

section \<open>Claims\<close>

text \<open>
  C1, as stated, fails.  With \<open>preferApi\<close> true and a structured client, a
  structured path that succeeds with an empty list does not end the search: the
  scraper opens a page and visits the search address, and its record is what the
  caller gets.
\<close>

theorem empty_structured_result_counterexample:
  "useApiFirst (config example_client) \<and> placesClient example_client \<noteq> None \<and>
   fst (searchWithApi (example_env (Inr zero_results) (Inr robots_open)) example_client
          (lit ''cleaning services'') (lit ''Tampa, FL'') world_init) = Inr [] \<and>
   fst (searchBusinesses (example_env (Inr zero_results) (Inr robots_open)) example_client
          (lit ''cleaning services'') (lit ''Tampa, FL'') no_options world_init)
     \<noteq> Inr (mapApiResults []) \<and>
   BrowserSearch (lit ''https://www.google.com/maps/search/cleaning+services+Tampa%2C+FL'')
     \<in> set (trace (snd (searchBusinesses (example_env (Inr zero_results) (Inr robots_open))
                           example_client (lit ''cleaning services'') (lit ''Tampa, FL'')
                           no_options world_init)))"
  by (simp add: run_simps)

text \<open>
  C1, amended.  With filled query and location, \<open>preferApi\<close> true (from the options,
  else the configuration) and a structured client, the search starts with the
  structured path on the world it was given.  When that path succeeds with at least one
  result, the caller gets its mapped results, cut to \<open>maxResults\<close>, and the world is the
  one the structured path left: nothing else has run, the scraper in particular.  When
  it fails or succeeds with no result, and a scraper exists, the scraping path runs
  next and its outcome is the outcome of the search.
\<close>

theorem structured_path_first_when_preferred:
  assumes "\<not> list_all isWhitespace query" and "\<not> list_all isWhitespace location"
    and "case preferApi options of None \<Rightarrow> useApiFirst (config this) | Some b \<Rightarrow> b"
    and "placesClient this \<noteq> None"
    and "searchWithApi env this query location w = (r, w', evs)"
  shows "(\<forall>apiResults. r = Inr apiResults \<and> apiResults \<noteq> [] \<longrightarrow>
            searchBusinesses env this query location options w =
              (Inr (slice (mapApiResults apiResults) 0
                      (case maxResults options of None \<Rightarrow> 20 | Some m \<Rightarrow> m)), w')) \<and>
         (scraper this \<noteq> None \<and> (r = Inr [] \<or> (\<exists>error. r = Inl error)) \<longrightarrow>
            searchBusinesses env this query location options w =
              (case searchWithScraper env this query location w' of
                 (Inr scraperResults, w'', evs') \<Rightarrow>
                   (Inr (slice (mapScraperResults scraperResults) 0
                           (case maxResults options of None \<Rightarrow> 20 | Some m \<Rightarrow> m)), w'')
               | (Inl error, w'', evs') \<Rightarrow> (Inl error, w'')))"
proof -
  have q: "\<not> (query = [] \<or> trim query = [])" and l: "\<not> (location = [] \<or> trim location = [])"
    using assms(1,2) by (simp_all only: blank_conv not_False_eq_True)
  show ?thesis
    using q l assms(3-5)
    by (auto simp: searchBusinesses_def scraper_or_fail_def Let_def mapApiResults_def
        split: sum.splits prod.splits)
qed

theorem structured_path_first_when_preferred_witness:
  "searchBusinesses (example_env (Inr one_place) (Inr robots_open)) example_client
       (lit ''cleaning services'') (lit ''Tampa, FL'') no_options world_init =
     (Inr (mapApiResults (projr (interpret_status one_place))),
      \<lparr>trace = [RateLimiterWait,
                AxiosGet (textsearch_request (lit ''test-key'') (lit ''cleaning services'')
                            (lit ''Tampa, FL''))],
       ext = 1\<rparr>) \<and>
   map source (projr (fst (searchBusinesses (example_env (Inr zero_results) (Inr robots_open))
       example_client (lit ''cleaning services'') (lit ''Tampa, FL'') no_options world_init)))
     = [Scraper]"
proof -
  have a: "\<not> list_all isWhitespace (lit ''cleaning services'')"
    and b: "\<not> list_all isWhitespace (lit ''Tampa, FL'')"
    by (simp_all add: isWhitespace_def lit_def)
  have c: "case preferApi no_options of None \<Rightarrow> useApiFirst (config example_client) | Some b \<Rightarrow> b"
    by (simp add: no_options_def example_client_def example_config_def)
  have d: "placesClient example_client \<noteq> None" by (simp add: example_client_def)
  have e1: "searchWithApi (example_env (Inr one_place) (Inr robots_open)) example_client
       (lit ''cleaning services'') (lit ''Tampa, FL'') world_init =
     (Inr (projr (interpret_status one_place)),
      \<lparr>trace = [RateLimiterWait,
                AxiosGet (textsearch_request (lit ''test-key'') (lit ''cleaning services'')
                            (lit ''Tampa, FL''))],
       ext = 1\<rparr>, [Attempt])"
    by (simp add: run_simps)
  have ne: "projr (interpret_status one_place) \<noteq> []" by (simp add: run_simps)
  have e2: "searchWithApi (example_env (Inr zero_results) (Inr robots_open)) example_client
       (lit ''cleaning services'') (lit ''Tampa, FL'') world_init =
     (Inr [],
      \<lparr>trace = [RateLimiterWait,
                AxiosGet (textsearch_request (lit ''test-key'') (lit ''cleaning services'')
                            (lit ''Tampa, FL''))],
       ext = 1\<rparr>, [Attempt])"
    by (simp add: run_simps)
  have s: "scraper example_client \<noteq> None" by (simp add: example_client_def)
  have m: "maxResults no_options = None" by (simp add: no_options_def)
  from structured_path_first_when_preferred[OF a b c d e1] ne
  have 1: "searchBusinesses (example_env (Inr one_place) (Inr robots_open)) example_client
       (lit ''cleaning services'') (lit ''Tampa, FL'') no_options world_init =
     (Inr (slice (mapApiResults (projr (interpret_status one_place))) 0 20),
      \<lparr>trace = [RateLimiterWait,
                AxiosGet (textsearch_request (lit ''test-key'') (lit ''cleaning services'')
                            (lit ''Tampa, FL''))],
       ext = 1\<rparr>)" by (simp add: m)
  from structured_path_first_when_preferred[OF a b c d e2] s
  have 2: "searchBusinesses (example_env (Inr zero_results) (Inr robots_open)) example_client
       (lit ''cleaning services'') (lit ''Tampa, FL'') no_options world_init =
     (Inr (slice (mapScraperResults (mapScrapedResults [example_scraped])) 0 20),
      \<lparr>trace = [RateLimiterWait,
                AxiosGet (textsearch_request (lit ''test-key'') (lit ''cleaning services'')
                            (lit ''Tampa, FL'')),
                AxiosGet robots_request,
                NewPage, SetupPage,
                BrowserSearch (lit ''https://www.google.com/maps/search/cleaning+services+Tampa%2C+FL''),
                ClosePage],
       ext = 6\<rparr>)" by (simp add: run_simps)
  show ?thesis unfolding 1 2
    by (simp add: interpret_status_def one_place_def place_one_def mapSearchResults_def
        isValidSearchResult_def truthy_def mapApiResults_def slice_def mapScraperResults_def
        mapScrapedResults_def isValidScrapedResult_def example_scraped_def lit_def)
qed

text \<open>
  C2.  The code at a transport that answers every text search with status 429, the
  limiter allowing 3 retries: the raw error is one that \<open>isRetryableError\<close> accepts,
  but the structured client has replaced it by a plain \<open>Error\<close> that is not
  retryable, so the structured path is attempted once, without any sleep, and the
  search goes on to the scraper after a single text-search request.
\<close>

theorem rate_limit_response_not_retried:
  "isRetryableError axios_error_429 \<and>
   maxRetries (rateLimiter example_client) = 3 \<and>
   searchWithApi (example_env (Inl axios_error_429) (Inr robots_open)) example_client
       (lit ''cleaning services'') (lit ''Tampa, FL'') world_init =
     (Inl (Error (lit ''Rate limit exceeded. Please try again later.'')),
      \<lparr>trace = [RateLimiterWait,
                AxiosGet (textsearch_request (lit ''test-key'') (lit ''cleaning services'')
                            (lit ''Tampa, FL''))],
       ext = 1\<rparr>,
      [Attempt]) \<and>
   \<not> isRetryableError (Error (lit ''Rate limit exceeded. Please try again later.'')) \<and>
   trace (snd (searchBusinesses (example_env (Inl axios_error_429) (Inr robots_open)) example_client
       (lit ''cleaning services'') (lit ''Tampa, FL'') no_options world_init)) =
     [RateLimiterWait,
      AxiosGet (textsearch_request (lit ''test-key'') (lit ''cleaning services'') (lit ''Tampa, FL'')),
      AxiosGet robots_request,
      NewPage, SetupPage,
      BrowserSearch (lit ''https://www.google.com/maps/search/cleaning+services+Tampa%2C+FL''),
      ClosePage]"
  by (simp add: run_simps)




text \<open>
  C4.  An operation that rejects with an error that is not retryable (no status 429,
  503 or 504, no code \<open>ECONNRESET\<close> or \<open>ETIMEDOUT\<close>, and a message, if any, that
  contains neither \<open>timeout\<close> nor \<open>network\<close>) is invoked exactly once, whatever the
  retry count and the limiter, and the caller gets that very error.
\<close>

theorem retryWithBackoff_non_retryable_once:
  assumes "operation w = (Inl error, w')"
    and "response_status error \<notin> {Some 429, Some 503, Some 504}"
    and "code error \<notin> {Some (lit ''ECONNRESET''), Some (lit ''ETIMEDOUT'')}"
    and "\<forall>m. message error = Some m \<longrightarrow>
           \<not> includes_str m (lit ''timeout'') \<and> \<not> includes_str m (lit ''network'')"
  shows "retryWithBackoff arith delay rl operation retryCount w = (Inl error, w', [Attempt])"
proof -
  have "\<not> isRetryableError error"
    using assms(2-4) by (auto simp: isRetryableError_def split: option.splits)
  then show ?thesis using assms(1)
    by (simp add: retryWithBackoff.simps[of arith delay rl operation retryCount w])
qed

theorem retryWithBackoff_non_retryable_once_witness:
  "retryWithBackoff integer_math observed_sleep capped_limiter (observed always_400) 0 ([], 7) =
     (Inl \<lparr>isAxiosError = True, response_status = Some 400, code = Some (lit ''ERR_BAD_REQUEST''),
           message = Some (lit ''Request failed with status code 400'')\<rparr>,
      ([Attempt], 8), [Attempt])"
  by (rule retryWithBackoff_non_retryable_once)
     (simp_all add: observed_def always_400_def lit_def)

text \<open>
  C5.  The code at a fetched policy document whose only rule, \<open>Disallow: /maps\<close>,
  stands in the section of another crawler: the loop over the sections finds nothing
  against the scraper, but the substring test before the loop has already answered
  \<open>false\<close>, and the search fails with the policy-denial error after the fetch of the
  document, before any browser session.
\<close>

theorem unmatched_section_blocks_scraping:
  "robots_lines (split other_bot_policy 0x0A) False \<and>
   \<not> robots_allows other_bot_policy \<and>
   scraper_searchBusinesses (example_env (Inr zero_results) (Inr (TextData other_bot_policy)))
       example_scraper (lit ''cleaning services'') (lit ''Tampa, FL'') world_init =
     (Inl (Error (lit ''Scraping not allowed by robots.txt'')),
      \<lparr>trace = [AxiosGet robots_request], ext = 1\<rparr>)"
  by (simp add: run_simps)

text \<open>
  C6.  After any sequence of tasks on one rate limiter, the callers released so far,
  followed by those still queued, are the callers in the order of their calls: releases
  are first in, first out.  At most one activation of \<open>processQueue\<close> is alive, and the
  flag \<open>processing\<close> is set exactly while one is.  A task that clears the flag is the
  timer of the drain finding the queue empty.
\<close>

theorem pacing_fifo_single_drain:
  "released (run ts) @ map resolve (requestQueue (run ts)) = callers ts \<and>
   prefix (released (run ts)) (callers ts) \<and>
   drains (run ts) \<le> 1 \<and>
   processing (run ts) = (drains (run ts) = 1) \<and>
   (processing (run ts) \<and> \<not> processing (step (run ts) t) \<longrightarrow>
      requestQueue (run ts) = [] \<and> t = TimerFires)"
proof -
  have inv: "pacing_inv (run ts)" by (rule pacing_inv_run)
  then have eq: "released (run ts) @ map resolve (requestQueue (run ts)) = callers ts"
    by (simp add: pacing_inv_def enqueued_run)
  then have "prefix (released (run ts)) (callers ts)"
    by (metis prefixI)
  with inv eq flag_cleared[of "run ts" t] show ?thesis
    by (simp add: pacing_inv_def)
qed

theorem pacing_fifo_single_drain_witness:
  "released (run [Call (1::nat) 0, Call 2 5, Call 3 6, TimerFires, TimerFires]) = [1, 2, 3] \<and>
   processing (run [Call (1::nat) 0, Call 2 5, Call 3 6, TimerFires, TimerFires]) \<and>
   \<not> processing (step (run [Call (1::nat) 0, Call 2 5, Call 3 6, TimerFires, TimerFires]) TimerFires) \<and>
   requestQueue (run [Call (1::nat) 0, Call 2 5, Call 3 6, TimerFires, TimerFires]) = [] \<and>
   drains (run [Call (1::nat) 0, Call 2 5, Call 3 6, TimerFires, TimerFires]) = 1"
proof -
  have p: "processing (run [Call (1::nat) 0, Call 2 5, Call 3 6, TimerFires, TimerFires])"
    by (simp add: run_def step_def waitForNextRequest_def processQueue_def processQueue_loop_def
        pacing_init_def Let_def)
  have n: "\<not> processing (step (run [Call (1::nat) 0, Call 2 5, Call 3 6, TimerFires, TimerFires]) TimerFires)"
    by (simp add: run_def step_def waitForNextRequest_def processQueue_def processQueue_loop_def
        pacing_init_def Let_def)
  from pacing_fifo_single_drain[of "[Call (1::nat) 0, Call 2 5, Call 3 6, TimerFires, TimerFires]" TimerFires]
       p n
  show ?thesis by auto
qed

text \<open>
  C7, as stated, fails.  \<open>maxResults\<close> is passed to \<open>slice(0, maxResults)\<close> as it
  comes; with \<open>maxResults: -1\<close> and two results from the structured path the call
  succeeds with one result, which is more than \<open>-1\<close>.
\<close>

theorem negative_maxResults_counterexample:
  "\<not> isl (fst (searchBusinesses (example_env (Inr two_places) (Inr robots_open)) example_client
            (lit ''cleaning services'') (lit ''Tampa, FL'')
            \<lparr>maxResults = Some (- 1), preferApi = None\<rparr> world_init)) \<and>
   map u_id (projr (fst (searchBusinesses (example_env (Inr two_places) (Inr robots_open))
            example_client (lit ''cleaning services'') (lit ''Tampa, FL'')
            \<lparr>maxResults = Some (- 1), preferApi = None\<rparr> world_init)))
     = [Some (lit ''ChIJ1'')] \<and>
   \<not> int (length (projr (fst (searchBusinesses (example_env (Inr two_places) (Inr robots_open))
            example_client (lit ''cleaning services'') (lit ''Tampa, FL'')
            \<lparr>maxResults = Some (- 1), preferApi = None\<rparr> world_init)))) \<le> - 1"
  by (simp add: run_simps)

text \<open>
  C7, amended.  When \<open>maxResults\<close> (20 when the caller gives none) is not negative, a
  search that succeeds returns at most \<open>maxResults\<close> elements: the list is the first
  \<open>maxResults\<close> of the mapped results with which the structured path or the scraping
  path ended the search, whichever produced them.
\<close>

theorem searchBusinesses_at_most_maxResults:
  assumes "searchBusinesses env this query location options w = (Inr found, w')"
    and "0 \<le> (case maxResults options of None \<Rightarrow> 20 | Some m \<Rightarrow> m)"
  shows "int (length found) \<le> (case maxResults options of None \<Rightarrow> 20 | Some m \<Rightarrow> m) \<and>
         ((\<exists>w0 evs apiResults.
              searchWithApi env this query location w0 = (Inr apiResults, w', evs) \<and>
              found = take (nat (case maxResults options of None \<Rightarrow> 20 | Some m \<Rightarrow> m))
                        (mapApiResults apiResults)) \<or>
          (\<exists>w0 evs scraperResults.
              searchWithScraper env this query location w0 = (Inr scraperResults, w', evs) \<and>
              found = take (nat (case maxResults options of None \<Rightarrow> 20 | Some m \<Rightarrow> m))
                        (mapScraperResults scraperResults)))"
proof -
  define n where "n = (case maxResults options of None \<Rightarrow> 20 | Some m \<Rightarrow> m)"
  have n0: "0 \<le> n" using assms(2) by (simp add: n_def)
  have shape: "(\<exists>w0 evs apiResults.
              searchWithApi env this query location w0 = (Inr apiResults, w', evs) \<and>
              found = slice (mapApiResults apiResults) 0 n) \<or>
          (\<exists>w0 evs scraperResults.
              searchWithScraper env this query location w0 = (Inr scraperResults, w', evs) \<and>
              found = slice (mapScraperResults scraperResults) 0 n)"
    using assms(1) unfolding searchBusinesses_def scraper_or_fail_def Let_def n_def[symmetric]
    by (auto split: if_splits prod.splits sum.splits) blast+
  then have len: "int (length found) \<le> n"
    using n0 slice_length[of n] by auto
  from shape len show ?thesis
    unfolding n_def[symmetric] slice_take[OF n0] by simp
qed

theorem searchBusinesses_at_most_maxResults_witness:
  "(0::int) \<le> 1 \<and>
   map u_id (projr (fst (searchBusinesses (example_env (Inr two_places) (Inr robots_open))
          example_client (lit ''cleaning services'') (lit ''Tampa, FL'')
          \<lparr>maxResults = Some 1, preferApi = None\<rparr> world_init))) = [Some (lit ''ChIJ1'')] \<and>
   int (length (projr (fst (searchBusinesses (example_env (Inr two_places) (Inr robots_open))
          example_client (lit ''cleaning services'') (lit ''Tampa, FL'')
          \<lparr>maxResults = Some 1, preferApi = None\<rparr> world_init)))) \<le> 1 \<and>
   int (length (projr (fst (searchBusinesses (example_env (Inr zero_results) (Inr robots_open))
          example_client (lit ''cleaning services'') (lit ''Tampa, FL'') no_options world_init))))
     \<le> 20"
proof -
  have e0: "searchBusinesses (example_env (Inr two_places) (Inr robots_open)) example_client
          (lit ''cleaning services'') (lit ''Tampa, FL'')
          \<lparr>maxResults = Some 1, preferApi = None\<rparr> world_init
     = (Inr (projr (fst (searchBusinesses (example_env (Inr two_places) (Inr robots_open))
          example_client (lit ''cleaning services'') (lit ''Tampa, FL'')
          \<lparr>maxResults = Some 1, preferApi = None\<rparr> world_init))),
        snd (searchBusinesses (example_env (Inr two_places) (Inr robots_open))
          example_client (lit ''cleaning services'') (lit ''Tampa, FL'')
          \<lparr>maxResults = Some 1, preferApi = None\<rparr> world_init))"
    by (simp add: run_simps)
  have e1: "searchBusinesses (example_env (Inr zero_results) (Inr robots_open)) example_client
          (lit ''cleaning services'') (lit ''Tampa, FL'') no_options world_init
     = (Inr (projr (fst (searchBusinesses (example_env (Inr zero_results) (Inr robots_open))
          example_client (lit ''cleaning services'') (lit ''Tampa, FL'') no_options world_init))),
        snd (searchBusinesses (example_env (Inr zero_results) (Inr robots_open))
          example_client (lit ''cleaning services'') (lit ''Tampa, FL'') no_options world_init))"
    by (simp add: run_simps)
  have i: "map u_id (projr (fst (searchBusinesses (example_env (Inr two_places) (Inr robots_open))
          example_client (lit ''cleaning services'') (lit ''Tampa, FL'')
          \<lparr>maxResults = Some 1, preferApi = None\<rparr> world_init))) = [Some (lit ''ChIJ1'')]"
    by (simp add: run_simps)
  from searchBusinesses_at_most_maxResults[OF e0] searchBusinesses_at_most_maxResults[OF e1] i
  show ?thesis by (simp add: no_options_def)
qed

text \<open>
  C8.  In each of the three search operations (orchestrator, structured client,
  scraper) an empty or whitespace-only query fails at once with
  \<open>Query is required\<close>, and an empty or whitespace-only location (the query being
  filled) with \<open>Location is required\<close>; the world that comes back is the one that
  went in, so no rate-limiter wait, request or browser call has taken place.  White
  space is what \<open>trim\<close> strips.
\<close>

theorem blank_arguments_fail_before_io:
  "(list_all isWhitespace query \<longrightarrow>
      searchBusinesses env this query location options w =
        (Inl (Error (lit ''Query is required'')), w) \<and>
      places_searchBusinesses env apiKey query location w =
        (Inl (Error (lit ''Query is required'')), w) \<and>
      scraper_searchBusinesses env sc query location w =
        (Inl (Error (lit ''Query is required'')), w)) \<and>
   (\<not> list_all isWhitespace query \<and> list_all isWhitespace location \<longrightarrow>
      searchBusinesses env this query location options w =
        (Inl (Error (lit ''Location is required'')), w) \<and>
      places_searchBusinesses env apiKey query location w =
        (Inl (Error (lit ''Location is required'')), w) \<and>
      scraper_searchBusinesses env sc query location w =
        (Inl (Error (lit ''Location is required'')), w))"
  by (simp add: searchBusinesses_def places_searchBusinesses_def scraper_searchBusinesses_def
      blank_conv Let_def)

theorem blank_arguments_fail_before_io_witness:
  "list_all isWhitespace [0xA0, 0x20, 0x2028] \<and>
   searchBusinesses (example_env (Inr zero_results) (Inr robots_open)) example_client
       [0xA0, 0x20, 0x2028] (lit ''Tampa'') no_options world_init
     = (Inl (Error (lit ''Query is required'')), world_init) \<and>
   \<not> list_all isWhitespace (lit ''plumber'') \<and> list_all isWhitespace [0x09, 0xFEFF] \<and>
   scraper_searchBusinesses (example_env (Inr zero_results) (Inr robots_open))
       example_scraper (lit ''plumber'') [0x09, 0xFEFF] world_init
     = (Inl (Error (lit ''Location is required'')), world_init) \<and>
   places_searchBusinesses (example_env (Inr zero_results) (Inr robots_open))
       (lit ''test-key'') (lit ''plumber'') [] world_init
     = (Inl (Error (lit ''Location is required'')), world_init)"
  using blank_arguments_fail_before_io[where query = "[0xA0, 0x20, 0x2028]"
          and location = "lit ''Tampa''"
          and env = "example_env (Inr zero_results) (Inr robots_open)" and this = example_client
          and options = no_options and w = world_init]
        blank_arguments_fail_before_io[where query = "lit ''plumber''"
          and location = "[0x09, 0xFEFF]"
          and env = "example_env (Inr zero_results) (Inr robots_open)"
          and sc = example_scraper and w = world_init]
        blank_arguments_fail_before_io[where query = "lit ''plumber''"
          and location = "[]"
          and env = "example_env (Inr zero_results) (Inr robots_open)"
          and apiKey = "lit ''test-key''" and w = world_init]
  by (simp add: isWhitespace_def lit_def)

text \<open>
  C9.  A structured search with filled arguments whose response arrives: with status
  \<open>ZERO_RESULTS\<close> it returns the empty list; with \<open>REQUEST_DENIED\<close> it fails with
  \<open>Google Places API error: \<close> followed by the source's error message, which the
  message therefore contains; with a status that is none of \<open>OK\<close>, \<open>ZERO_RESULTS\<close>,
  \<open>REQUEST_DENIED\<close> (or with none at all) it fails with the same prefix followed by the
  source's error message when there is one, else by the status.
\<close>

theorem places_status_handling:
  assumes "\<not> list_all isWhitespace query" and "\<not> list_all isWhitespace location"
    and "axios_get env (textsearch_request apiKey query location) (ext w) = (Inr (JsonData d), x')"
  shows "(status d = Some (lit ''ZERO_RESULTS'') \<longrightarrow>
            fst (places_searchBusinesses env apiKey query location w) = Inr []) \<and>
         (status d = Some (lit ''REQUEST_DENIED'') \<longrightarrow>
            (\<exists>e. fst (places_searchBusinesses env apiKey query location w) = Inl e \<and>
                 message e = Some (lit ''Google Places API error: '' @ template (error_message d)) \<and>
                 (\<forall>m. error_message d = Some m \<longrightarrow> includes_str (the (message e)) m))) \<and>
         (status d \<notin> {Some (lit ''OK''), Some (lit ''ZERO_RESULTS''), Some (lit ''REQUEST_DENIED'')} \<longrightarrow>
            (\<exists>e. fst (places_searchBusinesses env apiKey query location w) = Inl e \<and>
                 message e = Some (lit ''Google Places API error: '' @
                    template (if truthy (error_message d) then error_message d else status d))))"
proof -
  have q: "\<not> (query = [] \<or> trim query = [])" and l: "\<not> (location = [] \<or> trim location = [])"
    using assms(1,2) by (simp_all only: blank_conv not_False_eq_True)
  have run: "fst (places_searchBusinesses env apiKey query location w) =
      (case interpret_status (JsonData d) of
         Inl error \<Rightarrow> Inl (catch_rate_limit error)
       | Inr found \<Rightarrow> Inr found)"
    using q l assms(3)
    by (simp add: places_searchBusinesses_def await_axios_get_def await_waitForNextRequest_def
        split: sum.splits)
  have zero: "status d = Some (lit ''ZERO_RESULTS'') \<Longrightarrow> interpret_status (JsonData d) = Inr []"
    by (simp add: interpret_status_def lit_def)
  have denied: "status d = Some (lit ''REQUEST_DENIED'') \<Longrightarrow> interpret_status (JsonData d) =
      Inl (Error (lit ''Google Places API error: '' @ template (error_message d)))"
    by (simp add: interpret_status_def lit_def)
  have other: "status d \<notin> {Some (lit ''OK''), Some (lit ''ZERO_RESULTS''), Some (lit ''REQUEST_DENIED'')} \<Longrightarrow>
      interpret_status (JsonData d) =
      Inl (Error (lit ''Google Places API error: '' @
             template (if truthy (error_message d) then error_message d else status d)))"
    by (simp add: interpret_status_def lit_def)
  have contains: "error_message d = Some m \<Longrightarrow>
      includes_str (lit ''Google Places API error: '' @ template (error_message d)) m" for m
    unfolding template_def by (simp only: option.case includes_str_append)
  show ?thesis
  proof (intro conjI impI)
    assume a: "status d = Some (lit ''ZERO_RESULTS'')"
    show "fst (places_searchBusinesses env apiKey query location w) = Inr []"
      unfolding run zero[OF a] by (simp only: sum.case)
  next
    assume a: "status d = Some (lit ''REQUEST_DENIED'')"
    have 1: "fst (places_searchBusinesses env apiKey query location w) =
        Inl (Error (lit ''Google Places API error: '' @ template (error_message d)))"
      unfolding run denied[OF a] by (simp only: sum.case catch_rate_limit_Error)
    have 2: "message (Error (lit ''Google Places API error: '' @ template (error_message d))) =
        Some (lit ''Google Places API error: '' @ template (error_message d))"
      by (rule message_Error)
    have 3: "\<forall>m. error_message d = Some m \<longrightarrow>
        includes_str (the (message (Error (lit ''Google Places API error: '' @ template (error_message d))))) m"
      unfolding 2 option.sel using contains by blast
    show "\<exists>e. fst (places_searchBusinesses env apiKey query location w) = Inl e \<and>
                 message e = Some (lit ''Google Places API error: '' @ template (error_message d)) \<and>
                 (\<forall>m. error_message d = Some m \<longrightarrow> includes_str (the (message e)) m)"
      using 1 2 3 by blast
  next
    assume a: "status d \<notin> {Some (lit ''OK''), Some (lit ''ZERO_RESULTS''), Some (lit ''REQUEST_DENIED'')}"
    have "fst (places_searchBusinesses env apiKey query location w) =
        Inl (Error (lit ''Google Places API error: '' @
             template (if truthy (error_message d) then error_message d else status d)))"
      unfolding run other[OF a] by (simp only: sum.case catch_rate_limit_Error)
    then show "\<exists>e. fst (places_searchBusinesses env apiKey query location w) = Inl e \<and>
                 message e = Some (lit ''Google Places API error: '' @
                    template (if truthy (error_message d) then error_message d else status d))"
      using message_Error by blast
  qed
qed

theorem places_status_handling_witness:
  "fst (places_searchBusinesses (example_env (Inr zero_results) (Inr robots_open)) (lit ''test-key'')
          (lit ''cleaning services'') (lit ''Tampa, FL'') world_init) = Inr [] \<and>
   message (projl (fst (places_searchBusinesses (example_env (Inr request_denied) (Inr robots_open))
          (lit ''test-key'') (lit ''cleaning services'') (lit ''Tampa, FL'') world_init))) =
     Some (lit ''Google Places API error: The provided API key is invalid.'') \<and>
   message (projl (fst (places_searchBusinesses (example_env (Inr over_query_limit) (Inr robots_open))
          (lit ''test-key'') (lit ''cleaning services'') (lit ''Tampa, FL'') world_init))) =
     Some (lit ''Google Places API error: OVER_QUERY_LIMIT'')"
proof -
  have a: "\<not> list_all isWhitespace (lit ''cleaning services'')"
    and b: "\<not> list_all isWhitespace (lit ''Tampa, FL'')"
    by (simp_all add: isWhitespace_def lit_def)
  have z: "axios_get (example_env (Inr zero_results) (Inr robots_open))
             (textsearch_request (lit ''test-key'') (lit ''cleaning services'') (lit ''Tampa, FL'')) (ext world_init) =
           (Inr (JsonData \<lparr>status = Some (lit ''ZERO_RESULTS''), error_message = None, results = Some []\<rparr>), 1)"
    by (simp add: example_env_def zero_results_def world_init_def textsearch_request_def
        robots_request_def baseUrl_def lit_def)
  have r: "axios_get (example_env (Inr request_denied) (Inr robots_open))
             (textsearch_request (lit ''test-key'') (lit ''cleaning services'') (lit ''Tampa, FL'')) (ext world_init) =
           (Inr (JsonData \<lparr>status = Some (lit ''REQUEST_DENIED''),
                           error_message = Some (lit ''The provided API key is invalid.''),
                           results = Some []\<rparr>), 1)"
    by (simp add: example_env_def request_denied_def world_init_def textsearch_request_def
        robots_request_def baseUrl_def lit_def)
  have o: "axios_get (example_env (Inr over_query_limit) (Inr robots_open))
             (textsearch_request (lit ''test-key'') (lit ''cleaning services'') (lit ''Tampa, FL'')) (ext world_init) =
           (Inr (JsonData \<lparr>status = Some (lit ''OVER_QUERY_LIMIT''), error_message = None,
                           results = Some []\<rparr>), 1)"
    by (simp add: example_env_def over_query_limit_def world_init_def textsearch_request_def
        robots_request_def baseUrl_def lit_def)
  from places_status_handling[OF a b z] places_status_handling[OF a b r]
       places_status_handling[OF a b o]
  show ?thesis by (auto simp: template_def truthy_def lit_def)
qed

text \<open>
  C10.  The constructor validates the configuration of the global manager, not the
  merged one.  When the singleton is invalid the construction fails with its errors,
  whatever the override.  When the singleton is valid no override is rejected by the
  validation: the client is built on the merged configuration, valid or not; the one
  failure left is the structured client's own refusal of a key that is filled but
  blank.
\<close>

theorem constructor_validates_singleton_only:
  "(\<not> isValid (validateConfig singleton) \<longrightarrow>
      new_MapsClient singleton override =
        Inl (Error (lit ''Invalid configuration: '' @ join (validateConfig singleton) (lit '', '')))) \<and>
   (isValid (validateConfig singleton) \<longrightarrow>
      (if \<exists>k. googlePlacesApiKey (spread singleton c) = Some k \<and> k \<noteq> [] \<and> trim k = []
       then new_MapsClient singleton (Some c) = Inl (Error (lit ''API key is required''))
       else \<exists>client. new_MapsClient singleton (Some c) = Inr client \<and>
              config client = spread singleton c))"
  by (auto simp: new_MapsClient_def new_GooglePlacesClient_def Let_def split: option.splits)

theorem constructor_validates_singleton_only_witness:
  "isValid (validateConfig example_config) \<and>
   \<not> isValid (validateConfig (spread example_config invalid_override)) \<and>
   (\<exists>client. new_MapsClient example_config (Some invalid_override) = Inr client \<and>
      config client = spread example_config invalid_override) \<and>
   \<not> isValid (validateConfig invalid_config) \<and>
   isValid (validateConfig (spread invalid_config valid_override)) \<and>
   new_MapsClient invalid_config (Some valid_override) =
     Inl (Error (lit ''Invalid configuration: Either Google Places API key or web scraping must be enabled''))"
proof -
  have a: "isValid (validateConfig example_config)"
    by (simp add: isValid_def validateConfig_def example_config_def truthy_def trim_def
        isWhitespace_def lit_def)
  have b: "\<not> isValid (validateConfig (spread example_config invalid_override))"
    by (simp add: isValid_def validateConfig_def example_config_def invalid_override_def spread_def
        truthy_def trim_def isWhitespace_def lit_def)
  have k: "\<not> (\<exists>k. googlePlacesApiKey (spread example_config invalid_override) = Some k \<and>
             k \<noteq> [] \<and> trim k = [])"
    by (simp add: example_config_def invalid_override_def spread_def trim_def isWhitespace_def
        lit_def)
  have c: "\<not> isValid (validateConfig invalid_config)"
    by (simp add: isValid_def validateConfig_def invalid_config_def example_config_def truthy_def
        lit_def)
  have d: "isValid (validateConfig (spread invalid_config valid_override))"
    by (simp add: isValid_def validateConfig_def invalid_config_def valid_override_def
        example_config_def spread_def truthy_def trim_def isWhitespace_def lit_def)
  have j: "join (validateConfig invalid_config) (lit '', '') =
      (lit ''Either Google Places API key or web scraping must be enabled'')"
    by (simp add: validateConfig_def invalid_config_def example_config_def truthy_def)
  from constructor_validates_singleton_only[of example_config "Some invalid_override" invalid_override]
       constructor_validates_singleton_only[of invalid_config "Some valid_override" valid_override]
       a b c d k j
  show ?thesis by (simp add: lit_def)
qed

end
